theory Spec2Isabelle
  imports Complex_Main
begin

section \<open>JavaScript values, errors and the host engine\<close>

text \<open>
  The dashboard component of \<^verbatim>\<open>src/src/App.js\<close> (and its variant
  \<^verbatim>\<open>src/unnamed/part_000\<close>, whose four adapters have the same bodies and whose
  cycle awaits them one after another) reads four JSON payloads and stores parts of
  them in React state. A payload is a JavaScript value; \<open>Undefined\<close> is what reading
  an absent property gives. Numbers are idealised as reals (no rounding, no NaN inside
  a payload). An object is the association list of its own properties.
\<close>

datatype jsval =
    Undefined
  | Null
  | Bool bool
  | Num real
  | Str string
  | Arr "jsval list"
  | Obj "(string \<times> jsval) list"

text \<open>A thrown value: an Error object with its \<open>name\<close> and its \<open>message\<close>.\<close>

datatype js_error = JsError (name: string) (message: string)

text \<open>
  What the code leaves to the host: the local time zone adjustment of \<open>Date\<close>
  (milliseconds, by UTC time value), the implementation-defined parsing of a
  non-number handed to \<open>new Date\<close>, and the texts of the engine's own TypeErrors.
\<close>

record engine =
  localTZA :: "int \<Rightarrow> int"
  dateParse :: "jsval \<Rightarrow> real option"
  nullishReadMessage :: "jsval \<Rightarrow> string \<Rightarrow> string"
  notFunctionMessage :: "string \<Rightarrow> string"

text \<open>The messages of V8, with Date parsing that rejects everything and UTC as zone.\<close>

definition v8 :: engine where
  "v8 = \<lparr> localTZA = (\<lambda>t. 0),
          dateParse = (\<lambda>v. None),
          nullishReadMessage = (\<lambda>v k. ''Cannot read properties of ''
             @ (if v = Null then ''null'' else ''undefined'') @ '' (reading '' @ [CHR 0x27] @ k @ [CHR 0x27] @ '')''),
          notFunctionMessage = (\<lambda>e. e @ '' is not a function'') \<rparr>"

text \<open>The decimal digits of a natural number, as \<open>Number.prototype.toString\<close> prints them.\<close>

definition digit_char :: "nat \<Rightarrow> char" where
  "digit_char n = ''0123456789'' ! n"

fun decimal :: "nat \<Rightarrow> string" where
  "decimal n = (if n < 10 then [digit_char n] else decimal (n div 10) @ [digit_char (n mod 10)])"

declare decimal.simps [simp del]

text \<open>
  \<open>v.k\<close> for the property names the adapters read (none of them is a property of a
  prototype): a TypeError on \<open>undefined\<close> and \<open>null\<close>, the own property of an
  object, \<open>undefined\<close> otherwise.
\<close>

fun get_prop :: "engine \<Rightarrow> jsval \<Rightarrow> string \<Rightarrow> js_error + jsval" where
  "get_prop eng Undefined k = Inl (JsError ''TypeError'' (nullishReadMessage eng Undefined k))"
| "get_prop eng Null k = Inl (JsError ''TypeError'' (nullishReadMessage eng Null k))"
| "get_prop eng (Obj kvs) k = Inr (case map_of kvs k of Some v \<Rightarrow> v | None \<Rightarrow> Undefined)"
| "get_prop eng v k = Inr Undefined"

text \<open>\<open>v[i]\<close> for a literal index \<open>i\<close>.\<close>

fun get_index :: "engine \<Rightarrow> jsval \<Rightarrow> nat \<Rightarrow> js_error + jsval" where
  "get_index eng Undefined i = Inl (JsError ''TypeError'' (nullishReadMessage eng Undefined (decimal i)))"
| "get_index eng Null i = Inl (JsError ''TypeError'' (nullishReadMessage eng Null (decimal i)))"
| "get_index eng (Arr xs) i = Inr (if i < length xs then xs ! i else Undefined)"
| "get_index eng (Str s) i = Inr (if i < length s then Str [s ! i] else Undefined)"
| "get_index eng (Obj kvs) i = Inr (case map_of kvs (decimal i) of Some v \<Rightarrow> v | None \<Rightarrow> Undefined)"
| "get_index eng v i = Inr Undefined"

text \<open>A chain of property reads \<open>v.k1.k2...\<close>, stopping at the first TypeError.\<close>

fun get_path :: "engine \<Rightarrow> jsval \<Rightarrow> string list \<Rightarrow> js_error + jsval" where
  "get_path eng v [] = Inr v"
| "get_path eng v (k # ks) =
     (case get_prop eng v k of Inl e \<Rightarrow> Inl e | Inr w \<Rightarrow> get_path eng w ks)"

text \<open>The condition of \<open>if (v)\<close>.\<close>

fun truthy :: "jsval \<Rightarrow> bool" where
  "truthy Undefined = False"
| "truthy Null = False"
| "truthy (Bool b) = b"
| "truthy (Num x) = (x \<noteq> 0)"
| "truthy (Str s) = (s \<noteq> [])"
| "truthy (Arr xs) = True"
| "truthy (Obj kvs) = True"

section \<open>The outcome of a fetch\<close>

text \<open>
  \<open>await fetch(url)\<close> either rejects (a network failure) or yields a response with
  its \<open>ok\<close> flag; \<open>await response.json()\<close> either rejects (the body is not JSON) or
  yields the parsed value.
\<close>

record response =
  ok :: bool
  json :: "js_error + jsval"

datatype fetch_result = Rejected js_error | Resolved response

section \<open>The component's state\<close>

text \<open>The object stored by \<open>setBlockInfo\<close>; its field \<open>size\<close> is \<open>size_bytes\<close> here.\<close>

record block_info =
  hash :: jsval
  size_bytes :: jsval
  difficulty :: jsval
  totalVolume :: jsval

record btc_metrics =
  marketCap :: jsval
  volume24h :: jsval
  priceChange24h :: jsval
  priceChange7d :: jsval

text \<open>
  The fields \<open>label\<close> and \<open>data\<close> of a chart dataset, \<open>labels\<close> of the chart data and
  \<open>value\<close> and \<open>classification\<close> of the sentiment object carry a prefix here, their
  plain names being those of the adapters' local variables.
\<close>

record dataset =
  series_label :: string
  series_data :: "jsval list"
  borderColor :: string
  backgroundColor :: string
  fill :: bool

record price_data =
  chart_labels :: "string list"
  datasets :: "dataset list"

record fear_greed =
  index_value :: jsval
  index_classification :: jsval

text \<open>The seven \<open>useState\<close> cells; \<open>None\<close> and \<open>Null\<close> are the initial \<open>null\<close>.\<close>

record app_state =
  blockInfo :: "block_info option"
  blockHeight :: jsval
  btcPrice :: jsval
  btcMetrics :: "btc_metrics option"
  priceData :: "price_data option"
  fearGreedIndex :: "fear_greed option"
  error :: string

definition initial_state :: app_state where
  "initial_state = \<lparr> blockInfo = None, blockHeight = Null, btcPrice = Null, btcMetrics = None,
                      priceData = None, fearGreedIndex = None, error = [] \<rparr>"

definition setBlockInfo :: "block_info \<Rightarrow> app_state \<Rightarrow> app_state" where
  "setBlockInfo v s = s\<lparr>blockInfo := Some v\<rparr>"

definition setBlockHeight :: "jsval \<Rightarrow> app_state \<Rightarrow> app_state" where
  "setBlockHeight v s = s\<lparr>blockHeight := v\<rparr>"

definition setBtcPrice :: "jsval \<Rightarrow> app_state \<Rightarrow> app_state" where
  "setBtcPrice v s = s\<lparr>btcPrice := v\<rparr>"

definition setBtcMetrics :: "btc_metrics \<Rightarrow> app_state \<Rightarrow> app_state" where
  "setBtcMetrics v s = s\<lparr>btcMetrics := Some v\<rparr>"

definition setPriceData :: "price_data \<Rightarrow> app_state \<Rightarrow> app_state" where
  "setPriceData v s = s\<lparr>priceData := Some v\<rparr>"

definition setFearGreedIndex :: "fear_greed \<Rightarrow> app_state \<Rightarrow> app_state" where
  "setFearGreedIndex v s = s\<lparr>fearGreedIndex := Some v\<rparr>"

definition setError :: "string \<Rightarrow> app_state \<Rightarrow> app_state" where
  "setError m s = s\<lparr>error := m\<rparr>"

text \<open>
  An async function ends fulfilled (\<open>None\<close>) or rejected (\<open>Some e\<close>), with the state
  its setter calls have produced up to that point.
\<close>

type_synonym task = "app_state \<Rightarrow> js_error option \<times> app_state"

text \<open>\<open>try { body } catch (err) { setError(err.message) }\<close>\<close>

definition catch_setError :: "task \<Rightarrow> task" where
  "catch_setError body s =
     (case body s of
        (None, s') \<Rightarrow> (None, s')
      | (Some err, s') \<Rightarrow> (None, setError (message err) s'))"

text \<open>Evaluating one sub-expression after another, stopping at the first throw.\<close>

definition js_bind :: "js_error + 'a \<Rightarrow> ('a \<Rightarrow> js_error + 'b) \<Rightarrow> js_error + 'b" where
  "js_bind m f = (case m of Inl e \<Rightarrow> Inl e | Inr x \<Rightarrow> f x)"

section \<open>Block info adapter\<close>

text \<open>
  The object literal handed to \<open>setBlockInfo\<close>; its four property reads are evaluated
  in order before the setter is called.
\<close>

definition block_info_literal :: "engine \<Rightarrow> jsval \<Rightarrow> js_error + block_info" where
  "block_info_literal eng latestBlock =
     js_bind (get_prop eng latestBlock ''hash'') (\<lambda>h.
     js_bind (get_prop eng latestBlock ''size'') (\<lambda>sz.
     js_bind (get_prop eng latestBlock ''difficulty'') (\<lambda>d.
     js_bind (get_prop eng latestBlock ''weight'') (\<lambda>w.
       Inr \<lparr> hash = h, size_bytes = sz, difficulty = d, totalVolume = w \<rparr>))))"

definition fetchLatestBlockInfo_try :: "engine \<Rightarrow> fetch_result \<Rightarrow> task" where
  "fetchLatestBlockInfo_try eng r s =
     (case r of
        Rejected e \<Rightarrow> (Some e, s)
      | Resolved response \<Rightarrow>
          if \<not> ok response then (Some (JsError ''Error'' ''Failed to fetch latest block info''), s)
          else
            (case json response of
               Inl e \<Rightarrow> (Some e, s)
             | Inr data \<Rightarrow>
                 (case js_bind (get_prop eng data ''data'') (\<lambda>blocks. get_index eng blocks 0) of
                    Inl e \<Rightarrow> (Some e, s)
                  | Inr latestBlock \<Rightarrow>
                      if truthy latestBlock then
                        (case get_prop eng latestBlock ''id'' of
                           Inl e \<Rightarrow> (Some e, s)
                         | Inr height \<Rightarrow>
                             let s1 = setBlockHeight height s in
                             (case block_info_literal eng latestBlock of
                                Inl e \<Rightarrow> (Some e, s1)
                              | Inr info \<Rightarrow> (None, setBlockInfo info s1)))
                      else (Some (JsError ''Error'' ''No latest block data found''), s))))"

definition fetchLatestBlockInfo :: "engine \<Rightarrow> fetch_result \<Rightarrow> task" where
  "fetchLatestBlockInfo eng r = catch_setError (fetchLatestBlockInfo_try eng r)"

section \<open>Market metrics adapter\<close>

definition btc_metrics_literal :: "engine \<Rightarrow> jsval \<Rightarrow> js_error + btc_metrics" where
  "btc_metrics_literal eng data =
     js_bind (get_path eng data [''market_data'', ''market_cap'', ''usd'']) (\<lambda>cap.
     js_bind (get_path eng data [''market_data'', ''total_volume'', ''usd'']) (\<lambda>vol.
     js_bind (get_path eng data [''market_data'', ''price_change_percentage_24h'']) (\<lambda>c24.
     js_bind (get_path eng data [''market_data'', ''price_change_percentage_7d'']) (\<lambda>c7.
       Inr \<lparr> marketCap = cap, volume24h = vol, priceChange24h = c24, priceChange7d = c7 \<rparr>))))"

text \<open>
  \<open>setBtcPrice\<close> is called before the literal for \<open>setBtcMetrics\<close> is evaluated, so a
  throw inside the literal leaves the price already written.
\<close>

definition fetchBtcMetrics_try :: "engine \<Rightarrow> fetch_result \<Rightarrow> task" where
  "fetchBtcMetrics_try eng r s =
     (case r of
        Rejected e \<Rightarrow> (Some e, s)
      | Resolved response \<Rightarrow>
          if \<not> ok response then (Some (JsError ''Error'' ''Failed to fetch Bitcoin metrics''), s)
          else
            (case json response of
               Inl e \<Rightarrow> (Some e, s)
             | Inr data \<Rightarrow>
                 (case get_path eng data [''market_data'', ''current_price'', ''usd''] of
                    Inl e \<Rightarrow> (Some e, s)
                  | Inr price \<Rightarrow>
                      let s1 = setBtcPrice price s in
                      (case btc_metrics_literal eng data of
                         Inl e \<Rightarrow> (Some e, s1)
                       | Inr metrics \<Rightarrow> (None, setBtcMetrics metrics s1)))))"

definition fetchBtcMetrics :: "engine \<Rightarrow> fetch_result \<Rightarrow> task" where
  "fetchBtcMetrics eng r = catch_setError (fetchBtcMetrics_try eng r)"

section \<open>Price series adapter\<close>

text \<open>
  \<open>new Date(v)\<close>: the time value in milliseconds, \<open>None\<close> for an invalid date. A
  number is clipped (beyond 8.64e15 invalid, otherwise truncated towards zero);
  \<open>undefined\<close> is invalid, \<open>null\<close> and booleans convert to numbers; anything else is
  parsed by the engine.
\<close>

definition truncate_real :: "real \<Rightarrow> int" where
  "truncate_real x = (if 0 \<le> x then \<lfloor>x\<rfloor> else \<lceil>x\<rceil>)"

definition time_clip :: "real \<Rightarrow> int option" where
  "time_clip x = (if \<bar>x\<bar> > 8640000000000000 then None else Some (truncate_real x))"

fun new_Date :: "engine \<Rightarrow> jsval \<Rightarrow> int option" where
  "new_Date eng (Num x) = time_clip x"
| "new_Date eng Undefined = None"
| "new_Date eng Null = Some 0"
| "new_Date eng (Bool b) = Some (if b then 1 else 0)"
| "new_Date eng v = (case dateParse eng v of None \<Rightarrow> None | Some x \<Rightarrow> time_clip x)"

text \<open>\<open>date.getHours()\<close>: the hour of the local time, \<open>None\<close> for NaN.\<close>

definition getHours :: "engine \<Rightarrow> int option \<Rightarrow> nat option" where
  "getHours eng date =
     (case date of
        None \<Rightarrow> None
      | Some t \<Rightarrow> Some (nat (((t + localTZA eng t) div 3600000) mod 24)))"

text \<open>\<open>date.getHours() + ':00'\<close>\<close>

definition hour_label :: "engine \<Rightarrow> jsval \<Rightarrow> string" where
  "hour_label eng v =
     (case getHours eng (new_Date eng v) of None \<Rightarrow> ''NaN'' | Some h \<Rightarrow> decimal h) @ '':00''"

fun map_js :: "('a \<Rightarrow> js_error + 'b) \<Rightarrow> 'a list \<Rightarrow> js_error + 'b list" where
  "map_js f [] = Inr []"
| "map_js f (x # xs) =
     (case f x of
        Inl e \<Rightarrow> Inl e
      | Inr y \<Rightarrow> (case map_js f xs of Inl e \<Rightarrow> Inl e | Inr ys \<Rightarrow> Inr (y # ys)))"

text \<open>
  \<open>data.prices.map(f)\<close>: reading \<open>map\<close> of \<open>undefined\<close> or \<open>null\<close> throws, calling
  it on anything that is not an array throws (no parsed JSON value holds a function).
\<close>

definition prices_map :: "engine \<Rightarrow> jsval \<Rightarrow> (jsval \<Rightarrow> js_error + 'a) \<Rightarrow> js_error + 'a list" where
  "prices_map eng data f =
     js_bind (get_prop eng data ''prices'') (\<lambda>prices.
       case prices of
         Arr pricePoints \<Rightarrow> map_js f pricePoints
       | Undefined \<Rightarrow> Inl (JsError ''TypeError'' (nullishReadMessage eng Undefined ''map''))
       | Null \<Rightarrow> Inl (JsError ''TypeError'' (nullishReadMessage eng Null ''map''))
       | _ \<Rightarrow> Inl (JsError ''TypeError'' (notFunctionMessage eng ''data.prices.map'')))"

text \<open>\<open>xs.slice(start)\<close>: a negative start counts from the end, clamped at 0.\<close>

definition slice :: "int \<Rightarrow> 'a list \<Rightarrow> 'a list" where
  "slice start xs =
     (let len = int (length xs);
          k = (if start < 0 then max (len + start) 0 else min start len)
      in drop (nat k) xs)"

definition fetchPriceData_try :: "engine \<Rightarrow> fetch_result \<Rightarrow> task" where
  "fetchPriceData_try eng r s =
     (case r of
        Rejected e \<Rightarrow> (Some e, s)
      | Resolved response \<Rightarrow>
          if \<not> ok response then (Some (JsError ''Error'' ''Failed to fetch price data''), s)
          else
            (case json response of
               Inl e \<Rightarrow> (Some e, s)
             | Inr data \<Rightarrow>
                 (case prices_map eng data
                         (\<lambda>pricePoint. js_bind (get_index eng pricePoint 0)
                                          (\<lambda>t. Inr (hour_label eng t))) of
                    Inl e \<Rightarrow> (Some e, s)
                  | Inr labels \<Rightarrow>
                      (case prices_map eng data (\<lambda>pricePoint. get_index eng pricePoint 1) of
                         Inl e \<Rightarrow> (Some e, s)
                       | Inr prices \<Rightarrow>
                           (None,
                            setPriceData
                              \<lparr> chart_labels = slice (- 24) labels,
                                datasets =
                                  [\<lparr> series_label = ''Bitcoin Price (USD)'',
                                     series_data = slice (- 24) prices,
                                     borderColor = ''rgba(75, 192, 192, 1)'',
                                     backgroundColor = ''rgba(75, 192, 192, 0.2)'',
                                     fill = True \<rparr>] \<rparr> s)))))"

definition fetchPriceData :: "engine \<Rightarrow> fetch_result \<Rightarrow> task" where
  "fetchPriceData eng r = catch_setError (fetchPriceData_try eng r)"

section \<open>Sentiment adapter\<close>

definition fear_greed_literal :: "engine \<Rightarrow> jsval \<Rightarrow> js_error + fear_greed" where
  "fear_greed_literal eng indexData =
     js_bind (get_prop eng indexData ''value'') (\<lambda>v.
     js_bind (get_prop eng indexData ''value_classification'') (\<lambda>c.
       Inr \<lparr> index_value = v, index_classification = c \<rparr>))"

definition fetchFearGreedIndex_try :: "engine \<Rightarrow> fetch_result \<Rightarrow> task" where
  "fetchFearGreedIndex_try eng r s =
     (case r of
        Rejected e \<Rightarrow> (Some e, s)
      | Resolved response \<Rightarrow>
          if \<not> ok response then (Some (JsError ''Error'' ''Failed to fetch Fear and Greed Index''), s)
          else
            (case json response of
               Inl e \<Rightarrow> (Some e, s)
             | Inr data \<Rightarrow>
                 (case js_bind (get_prop eng data ''data'') (\<lambda>entries. get_index eng entries 0) of
                    Inl e \<Rightarrow> (Some e, s)
                  | Inr indexData \<Rightarrow>
                      (case fear_greed_literal eng indexData of
                         Inl e \<Rightarrow> (Some e, s)
                       | Inr snapshot \<Rightarrow> (None, setFearGreedIndex snapshot s)))))"

definition fetchFearGreedIndex :: "engine \<Rightarrow> fetch_result \<Rightarrow> task" where
  "fetchFearGreedIndex eng r = catch_setError (fetchFearGreedIndex_try eng r)"

text \<open>
  The \<open>switch\<close> of \<open>getEmojiForClassification\<close> compares with \<open>===\<close>, so only a
  string can match a case; the glyphs are written as their UTF-8 bytes.
\<close>

definition getEmojiForClassification :: "jsval \<Rightarrow> string" where
  "getEmojiForClassification classification =
     (if classification = Str ''Extreme Fear'' then [CHR 0xF0, CHR 0x9F, CHR 0x99, CHR 0x80]
      else if classification = Str ''Fear'' then [CHR 0xF0, CHR 0x9F, CHR 0x98, CHR 0xA8]
      else if classification = Str ''Neutral'' then [CHR 0xF0, CHR 0x9F, CHR 0x98, CHR 0x90]
      else if classification = Str ''Greed'' then [CHR 0xF0, CHR 0x9F, CHR 0xA4, CHR 0x91]
      else if classification = Str ''Extreme Greed'' then [CHR 0xF0, CHR 0x9F, CHR 0x98, CHR 0x88]
      else [])"

section \<open>One refresh cycle\<close>

datatype adapter = BlockInfo | BtcMetrics | PriceData | FearGreed

text \<open>The outcome of each adapter's request in one cycle.\<close>

type_synonym outcomes = "adapter \<Rightarrow> fetch_result"

fun adapter_try :: "engine \<Rightarrow> adapter \<Rightarrow> fetch_result \<Rightarrow> task" where
  "adapter_try eng BlockInfo r = fetchLatestBlockInfo_try eng r"
| "adapter_try eng BtcMetrics r = fetchBtcMetrics_try eng r"
| "adapter_try eng PriceData r = fetchPriceData_try eng r"
| "adapter_try eng FearGreed r = fetchFearGreedIndex_try eng r"

fun run_adapter :: "engine \<Rightarrow> adapter \<Rightarrow> fetch_result \<Rightarrow> task" where
  "run_adapter eng BlockInfo r = fetchLatestBlockInfo eng r"
| "run_adapter eng BtcMetrics r = fetchBtcMetrics eng r"
| "run_adapter eng PriceData r = fetchPriceData eng r"
| "run_adapter eng FearGreed r = fetchFearGreedIndex eng r"

text \<open>\<open>await f(); await g()\<close>: a rejection of \<open>f\<close> is thrown and \<open>g\<close> is not called.\<close>

definition await_then :: "task \<Rightarrow> task \<Rightarrow> task" where
  "await_then f g s = (case f s of (Some e, s') \<Rightarrow> (Some e, s') | (None, s') \<Rightarrow> g s')"

text \<open>
  \<open>fetchLatestData\<close> of \<^verbatim>\<open>src/unnamed/part_000\<close>: the four adapters awaited one
  after another inside a try/catch.
\<close>

definition fetchLatestData_sequential :: "engine \<Rightarrow> outcomes \<Rightarrow> task" where
  "fetchLatestData_sequential eng rs =
     catch_setError
       (await_then (fetchLatestBlockInfo eng (rs BlockInfo))
       (await_then (fetchBtcMetrics eng (rs BtcMetrics))
       (await_then (fetchPriceData eng (rs PriceData))
                   (fetchFearGreedIndex eng (rs FearGreed)))))"

text \<open>
  \<open>await Promise.all([...])\<close>: every task runs to its end; each task writes the state
  in a single step once its last \<open>await\<close> has returned, so a run is the tasks' steps in
  the order in which the requests settle. The join is rejected with the first
  rejection, fulfilled when every task is.
\<close>

fun promise_all :: "task list \<Rightarrow> task" where
  "promise_all [] s = (None, s)"
| "promise_all (t # ts) s =
     (case t s of
        (e, s1) \<Rightarrow>
          (case promise_all ts s1 of
             (e', s2) \<Rightarrow> ((case e of Some x \<Rightarrow> Some x | None \<Rightarrow> e'), s2)))"

text \<open>
  \<open>fetchLatestData\<close> of \<^verbatim>\<open>src/src/App.js\<close>; \<open>order\<close> is the order in which the four
  requests settle, a choice of the network.
\<close>

definition fetchLatestData :: "engine \<Rightarrow> adapter list \<Rightarrow> outcomes \<Rightarrow> task" where
  "fetchLatestData eng order rs = promise_all (map (\<lambda>a. run_adapter eng a (rs a)) order)"

definition settle_order :: "adapter list \<Rightarrow> bool" where
  "settle_order order = (distinct order \<and> set order = {BlockInfo, BtcMetrics, PriceData, FearGreed})"

section \<open>Views of the state and of a cycle\<close>

text \<open>The part of the state that each adapter writes on success.\<close>

datatype snapshot =
    BlockSnapshot jsval "block_info option"
  | MarketSnapshot jsval "btc_metrics option"
  | PriceSeries "price_data option"
  | SentimentSnapshot "fear_greed option"

fun snapshot_of :: "adapter \<Rightarrow> app_state \<Rightarrow> snapshot" where
  "snapshot_of BlockInfo s = BlockSnapshot (blockHeight s) (blockInfo s)"
| "snapshot_of BtcMetrics s = MarketSnapshot (btcPrice s) (btcMetrics s)"
| "snapshot_of PriceData s = PriceSeries (priceData s)"
| "snapshot_of FearGreed s = SentimentSnapshot (fearGreedIndex s)"

text \<open>What an adapter's try block throws on a given fetch outcome, \<open>None\<close> if it completes.\<close>

definition adapter_failure :: "engine \<Rightarrow> adapter \<Rightarrow> fetch_result \<Rightarrow> js_error option" where
  "adapter_failure eng a r = fst (adapter_try eng a r initial_state)"

text \<open>The adapters that fail in a cycle, in the order in which they settle.\<close>

definition failed_adapters :: "engine \<Rightarrow> adapter list \<Rightarrow> outcomes \<Rightarrow> adapter list" where
  "failed_adapters eng order rs = filter (\<lambda>a. adapter_failure eng a (rs a) \<noteq> None) order"

text \<open>
  The value range and the enumeration that the specification gives for a sentiment
  snapshot.
\<close>

definition sentiment_value_in_range :: "jsval \<Rightarrow> bool" where
  "sentiment_value_in_range v =
     (case v of Num x \<Rightarrow> x = of_int \<lfloor>x\<rfloor> \<and> 0 \<le> x \<and> x \<le> 100 | _ \<Rightarrow> False)"

definition known_classification :: "jsval \<Rightarrow> bool" where
  "known_classification c =
     (c \<in> {Str ''Extreme Fear'', Str ''Fear'', Str ''Neutral'', Str ''Greed'', Str ''Extreme Greed''})"

text \<open>A price series as the chart endpoint sends it: an array of [timestamp, price] pairs.\<close>

definition price_points :: "(real \<times> real) list \<Rightarrow> jsval" where
  "price_points series = Arr (map (\<lambda>(t, p). Arr [Num t, Num p]) series)"

text \<open>The failure of the adapter that failed last in a cycle, \<open>None\<close> if none failed.\<close>

definition last_failure :: "engine \<Rightarrow> adapter list \<Rightarrow> outcomes \<Rightarrow> js_error option" where
  "last_failure eng order rs =
     (let failed = failed_adapters eng order rs
      in if failed = [] then None else adapter_failure eng (last failed) (rs (last failed)))"

text \<open>The local hour of day of a time value given as a number.\<close>

definition local_hour :: "engine \<Rightarrow> real \<Rightarrow> nat" where
  "local_hour eng t = nat (((truncate_real t + localTZA eng (truncate_real t)) div 3600000) mod 24)"

text \<open>
  The market section of the rendered page: guarded by \<open>btcPrice !== null\<close> alone, it
  reads \<open>btcMetrics.marketCap\<close>, which throws while \<open>btcMetrics\<close> is still \<open>null\<close>.
  \<open>Inr True\<close> stands for the rendered figures, \<open>Inr False\<close> for the loading text.
\<close>

definition render_market_section :: "engine \<Rightarrow> app_state \<Rightarrow> js_error + bool" where
  "render_market_section eng s =
     (if btcPrice s \<noteq> Null then
        (case btcMetrics s of
           None \<Rightarrow> Inl (JsError ''TypeError'' (nullishReadMessage eng Null ''marketCap''))
         | Some metrics \<Rightarrow> Inr True)
      else Inr False)"

section \<open>Sample payloads\<close>

definition json_ok :: "jsval \<Rightarrow> fetch_result" where
  "json_ok v = Resolved \<lparr> ok = True, json = Inr v \<rparr>"

definition http_error :: fetch_result where
  "http_error = Resolved \<lparr> ok = False, json = Inr Null \<rparr>"

definition block_payload :: jsval where
  "block_payload =
     Obj [(''data'', Arr [Obj [(''id'', Num 820000), (''hash'', Str ''00000ab''),
                               (''size'', Num 1400000), (''difficulty'', Num 60000000000000),
                               (''weight'', Num 3990000)]])]"

definition market_payload :: jsval where
  "market_payload =
     Obj [(''market_data'',
           Obj [(''current_price'', Obj [(''usd'', Num 43000)]),
                (''market_cap'', Obj [(''usd'', Num 850000000000)]),
                (''total_volume'', Obj [(''usd'', Num 21000000000)]),
                (''price_change_percentage_24h'', Num 2),
                (''price_change_percentage_7d'', Num (- 3))])]"

text \<open>The market payload without \<open>market_data.total_volume\<close>.\<close>

definition market_payload_no_volume :: jsval where
  "market_payload_no_volume =
     Obj [(''market_data'',
           Obj [(''current_price'', Obj [(''usd'', Num 43500)]),
                (''market_cap'', Obj [(''usd'', Num 850000000000)]),
                (''price_change_percentage_24h'', Num 2),
                (''price_change_percentage_7d'', Num (- 3))])]"

definition chart_payload :: jsval where
  "chart_payload =
     Obj [(''prices'', price_points [(1700000000000, 42000), (1700003600000, 42500)])]"

definition sentiment_payload :: jsval where
  "sentiment_payload =
     Obj [(''data'', Arr [Obj [(''value'', Num 72), (''value_classification'', Str ''Greed'')]])]"

text \<open>A sentiment payload outside the documented range and enumeration.\<close>

definition sentiment_payload_odd :: jsval where
  "sentiment_payload_odd =
     Obj [(''data'', Arr [Obj [(''value'', Num 150), (''value_classification'', Str ''Panic'')]])]"

fun healthy :: outcomes where
  "healthy BlockInfo = json_ok block_payload"
| "healthy BtcMetrics = json_ok market_payload"
| "healthy PriceData = json_ok chart_payload"
| "healthy FearGreed = json_ok sentiment_payload"

text \<open>The chart endpoint answers with an HTTP error status, the others are healthy.\<close>

fun price_down :: outcomes where
  "price_down PriceData = http_error"
| "price_down a = healthy a"

text \<open>The block endpoint is unreachable and the chart endpoint answers with an error status.\<close>

fun block_and_price_down :: outcomes where
  "block_and_price_down BlockInfo = Rejected (JsError ''TypeError'' ''Failed to fetch'')"
| "block_and_price_down PriceData = http_error"
| "block_and_price_down a = healthy a"

text \<open>A chart payload of 26 hourly points, starting at 2023-11-14 22:13:20 UTC.\<close>

definition sample_series :: "(real \<times> real) list" where
  "sample_series =
     map (\<lambda>i. (1700000000000 + 3600000 * i, 42000 + i))
       [0, 1, 2, 3, 4, 5, 6, 7, 8, 9, 10, 11, 12, 13, 14, 15, 16, 17, 18, 19, 20, 21, 22, 23, 24, 25]"

definition long_chart_payload :: jsval where
  "long_chart_payload = Obj [(''prices'', price_points sample_series)]"

section \<open>Basic facts about the adapters\<close>

lemmas setter_defs = setBlockInfo_def setBlockHeight_def setBtcPrice_def setBtcMetrics_def
  setPriceData_def setFearGreedIndex_def setError_def

lemmas try_defs = fetchLatestBlockInfo_try_def fetchBtcMetrics_try_def fetchPriceData_try_def
  fetchFearGreedIndex_try_def

lemmas fetch_defs = fetchLatestBlockInfo_def fetchBtcMetrics_def fetchPriceData_def
  fetchFearGreedIndex_def

lemma catch_setError_fulfilled: "fst (catch_setError body s) = None"
  by (simp add: catch_setError_def split: prod.splits option.splits)

lemma catch_setError_fields:
  "blockInfo (snd (catch_setError body s)) = blockInfo (snd (body s))"
  "blockHeight (snd (catch_setError body s)) = blockHeight (snd (body s))"
  "btcPrice (snd (catch_setError body s)) = btcPrice (snd (body s))"
  "btcMetrics (snd (catch_setError body s)) = btcMetrics (snd (body s))"
  "priceData (snd (catch_setError body s)) = priceData (snd (body s))"
  "fearGreedIndex (snd (catch_setError body s)) = fearGreedIndex (snd (body s))"
  by (simp_all add: catch_setError_def setError_def split: prod.splits option.splits)

lemma catch_setError_error:
  "error (snd (catch_setError body s)) =
     (case fst (body s) of None \<Rightarrow> error (snd (body s)) | Some e \<Rightarrow> message e)"
  by (simp add: catch_setError_def setError_def split: prod.splits option.splits)

lemma run_adapter_catch: "run_adapter eng a r = catch_setError (adapter_try eng a r)"
  by (cases a) (simp_all add: fetch_defs)

lemma run_adapter_fulfilled: "fst (run_adapter eng a r s) = None"
  by (simp add: run_adapter_catch catch_setError_fulfilled)

text \<open>A try block writes its own cells only, and never the error cell.\<close>

lemma block_try_frame:
  "btcPrice (snd (fetchLatestBlockInfo_try eng r s)) = btcPrice s"
  "btcMetrics (snd (fetchLatestBlockInfo_try eng r s)) = btcMetrics s"
  "priceData (snd (fetchLatestBlockInfo_try eng r s)) = priceData s"
  "fearGreedIndex (snd (fetchLatestBlockInfo_try eng r s)) = fearGreedIndex s"
  "error (snd (fetchLatestBlockInfo_try eng r s)) = error s"
  by (simp_all add: fetchLatestBlockInfo_try_def setter_defs Let_def
        split: fetch_result.splits sum.splits)

lemma metrics_try_frame:
  "blockInfo (snd (fetchBtcMetrics_try eng r s)) = blockInfo s"
  "blockHeight (snd (fetchBtcMetrics_try eng r s)) = blockHeight s"
  "priceData (snd (fetchBtcMetrics_try eng r s)) = priceData s"
  "fearGreedIndex (snd (fetchBtcMetrics_try eng r s)) = fearGreedIndex s"
  "error (snd (fetchBtcMetrics_try eng r s)) = error s"
  by (simp_all add: fetchBtcMetrics_try_def setter_defs Let_def
        split: fetch_result.splits sum.splits)

lemma price_try_frame:
  "blockInfo (snd (fetchPriceData_try eng r s)) = blockInfo s"
  "blockHeight (snd (fetchPriceData_try eng r s)) = blockHeight s"
  "btcPrice (snd (fetchPriceData_try eng r s)) = btcPrice s"
  "btcMetrics (snd (fetchPriceData_try eng r s)) = btcMetrics s"
  "fearGreedIndex (snd (fetchPriceData_try eng r s)) = fearGreedIndex s"
  "error (snd (fetchPriceData_try eng r s)) = error s"
  by (simp_all add: fetchPriceData_try_def setter_defs Let_def
        split: fetch_result.splits sum.splits)

lemma fear_try_frame:
  "blockInfo (snd (fetchFearGreedIndex_try eng r s)) = blockInfo s"
  "blockHeight (snd (fetchFearGreedIndex_try eng r s)) = blockHeight s"
  "btcPrice (snd (fetchFearGreedIndex_try eng r s)) = btcPrice s"
  "btcMetrics (snd (fetchFearGreedIndex_try eng r s)) = btcMetrics s"
  "priceData (snd (fetchFearGreedIndex_try eng r s)) = priceData s"
  "error (snd (fetchFearGreedIndex_try eng r s)) = error s"
  by (simp_all add: fetchFearGreedIndex_try_def setter_defs Let_def
        split: fetch_result.splits sum.splits)

lemmas try_frame = block_try_frame metrics_try_frame price_try_frame fear_try_frame

text \<open>Whether a try block throws, and what, is decided by the fetch outcome alone.\<close>

lemma adapter_try_failure_indep: "fst (adapter_try eng a r s) = fst (adapter_try eng a r t)"
  by (cases a) (simp_all add: try_defs Let_def split: fetch_result.splits sum.splits)

lemma adapter_try_failure: "fst (adapter_try eng a r s) = adapter_failure eng a r"
  unfolding adapter_failure_def by (rule adapter_try_failure_indep)

lemma adapter_try_error: "error (snd (adapter_try eng a r s)) = error s"
  by (cases a) (simp_all add: try_frame)

lemma run_adapter_error:
  "error (snd (run_adapter eng a r s)) =
     (case adapter_failure eng a r of None \<Rightarrow> error s | Some e \<Rightarrow> message e)"
  by (simp add: run_adapter_catch catch_setError_error adapter_try_failure adapter_try_error
        split: option.splits)

text \<open>A join of tasks that all end fulfilled ends fulfilled.\<close>

lemma promise_all_fulfilled:
  "(\<And>t s. t \<in> set ts \<Longrightarrow> fst (t s) = None) \<Longrightarrow> fst (promise_all ts s) = None"
proof (induction ts arbitrary: s)
  case Nil
  then show ?case by simp
next
  case (Cons t ts)
  have head: "fst (t s) = None" by (rule Cons.prems) simp
  have tail: "fst (promise_all ts (snd (t s))) = None"
    by (rule Cons.IH) (simp add: Cons.prems)
  from head tail show ?case
    by (cases "t s"; cases "promise_all ts (snd (t s))") simp_all
qed

text \<open>An adapter, failing or not, leaves the snapshots of the other adapters alone.\<close>

lemma run_adapter_frame: "b \<noteq> a \<Longrightarrow> snapshot_of b (snd (run_adapter eng a r s)) = snapshot_of b s"
  by (cases a; cases b) (simp_all add: fetch_defs catch_setError_fields try_frame)

section \<open>Isolation of failures\<close>

text \<open>
  Claim C1. When an adapter's fetch fails in any way (its try block throws: a rejected
  fetch, a response that is not ok, a body that is not JSON, a read through a missing
  field), the state after that adapter has run holds, for each of the other three
  adapters, exactly the snapshot it held before.
\<close>

theorem failing_adapter_keeps_other_snapshots:
  assumes "fst (adapter_try eng a r s) = Some err" and "b \<noteq> a"
  shows "snapshot_of b (snd (run_adapter eng a r s)) = snapshot_of b s"
  using assms(2) by (cases a; cases b) (simp_all add: fetch_defs catch_setError_fields try_frame)

theorem failing_adapter_keeps_other_snapshots_witness:
  "fst (adapter_try v8 PriceData http_error (snd (fetchLatestData_sequential v8 healthy initial_state)))
     = Some (JsError ''Error'' ''Failed to fetch price data'')
   \<and> BlockInfo \<noteq> PriceData
   \<and> snapshot_of BlockInfo
        (snd (run_adapter v8 PriceData http_error (snd (fetchLatestData_sequential v8 healthy initial_state))))
     = snapshot_of BlockInfo (snd (fetchLatestData_sequential v8 healthy initial_state))"
proof -
  have f: "fst (adapter_try v8 PriceData http_error (snd (fetchLatestData_sequential v8 healthy initial_state)))
             = Some (JsError ''Error'' ''Failed to fetch price data'')"
    by (simp add: fetchPriceData_try_def http_error_def)
  have d: "BlockInfo \<noteq> PriceData" by simp
  from f d failing_adapter_keeps_other_snapshots [OF f d] show ?thesis by simp
qed

section \<open>The sentiment glyph\<close>

text \<open>
  Claim C6. The mapping from classification to glyph is total: each of the five known
  classifications has a non-empty glyph, the five glyphs are pairwise distinct, and
  every other input has the empty glyph.
\<close>

theorem getEmojiForClassification_total:
  "getEmojiForClassification (Str ''Extreme Fear'') \<noteq> []
   \<and> getEmojiForClassification (Str ''Fear'') \<noteq> []
   \<and> getEmojiForClassification (Str ''Neutral'') \<noteq> []
   \<and> getEmojiForClassification (Str ''Greed'') \<noteq> []
   \<and> getEmojiForClassification (Str ''Extreme Greed'') \<noteq> []
   \<and> distinct (map getEmojiForClassification
        [Str ''Extreme Fear'', Str ''Fear'', Str ''Neutral'', Str ''Greed'', Str ''Extreme Greed''])
   \<and> (\<forall>v. v \<notin> {Str ''Extreme Fear'', Str ''Fear'', Str ''Neutral'', Str ''Greed'',
                 Str ''Extreme Greed''}
         \<longrightarrow> getEmojiForClassification v = [])"
  by (simp add: getEmojiForClassification_def)

theorem getEmojiForClassification_total_witness:
  "Str ''Panic'' \<notin> {Str ''Extreme Fear'', Str ''Fear'', Str ''Neutral'', Str ''Greed'',
                     Str ''Extreme Greed''}
   \<and> getEmojiForClassification (Str ''Panic'') = []"
  using getEmojiForClassification_total by simp

section \<open>The state after a cycle\<close>

lemma promise_all_state: "snd (promise_all ts s) = fold (\<lambda>t s. snd (t s)) ts s"
proof (induction ts arbitrary: s)
  case Nil
  then show ?case by simp
next
  case (Cons t ts)
  from Cons.IH [of "snd (t s)"] show ?case
    by (cases "t s"; cases "promise_all ts (snd (t s))") simp_all
qed

lemma fetchLatestData_fold:
  "snd (fetchLatestData eng order rs s) = fold (\<lambda>a s. snd (run_adapter eng a (rs a) s)) order s"
  by (simp add: fetchLatestData_def promise_all_state fold_map comp_def)

lemma await_then_fulfilled: "fst (f s) = None \<Longrightarrow> await_then f g s = g (snd (f s))"
  by (cases "f s") (simp add: await_then_def)

lemma catch_setError_idle: "fst (body s) = None \<Longrightarrow> catch_setError body s = body s"
  by (cases "body s") (simp add: catch_setError_def)

text \<open>
  No adapter ends rejected, so the sequential cycle runs all four and its outer catch
  never fires.
\<close>

lemma fetchLatestData_sequential_fold:
  "snd (fetchLatestData_sequential eng rs s)
     = fold (\<lambda>a s. snd (run_adapter eng a (rs a) s)) [BlockInfo, BtcMetrics, PriceData, FearGreed] s"
proof -
  have b: "fst (fetchLatestBlockInfo eng r t) = None" for r t
    using run_adapter_fulfilled [of eng BlockInfo] by simp
  have m: "fst (fetchBtcMetrics eng r t) = None" for r t
    using run_adapter_fulfilled [of eng BtcMetrics] by simp
  have p: "fst (fetchPriceData eng r t) = None" for r t
    using run_adapter_fulfilled [of eng PriceData] by simp
  have f: "fst (fetchFearGreedIndex eng r t) = None" for r t
    using run_adapter_fulfilled [of eng FearGreed] by simp
  show ?thesis
    by (simp add: fetchLatestData_sequential_def catch_setError_idle await_then_fulfilled b m p f)
qed

text \<open>What an adapter makes of its own snapshot depends on that snapshot and the outcome only.\<close>

lemma run_adapter_own:
  "snapshot_of a s = snapshot_of a t \<Longrightarrow>
   snapshot_of a (snd (run_adapter eng a r s)) = snapshot_of a (snd (run_adapter eng a r t))"
  by (cases a)
     (simp_all add: fetch_defs catch_setError_fields try_defs setter_defs Let_def
        split: fetch_result.splits sum.splits)

lemma fold_frame:
  "b \<notin> set order \<Longrightarrow>
   snapshot_of b (fold (\<lambda>a s. snd (run_adapter eng a (rs a) s)) order s) = snapshot_of b s"
  by (induction order arbitrary: s) (auto simp: run_adapter_frame)

lemma fold_snapshot:
  "distinct order \<Longrightarrow> b \<in> set order \<Longrightarrow>
   snapshot_of b (fold (\<lambda>a s. snd (run_adapter eng a (rs a) s)) order s)
     = snapshot_of b (snd (run_adapter eng b (rs b) s))"
proof (induction order arbitrary: s)
  case Nil
  then show ?case by simp
next
  case (Cons x xs)
  show ?case
  proof (cases "x = b")
    case True
    with Cons.prems have "b \<notin> set xs" by simp
    then show ?thesis using True by (simp add: fold_frame)
  next
    case False
    with Cons.prems have "b \<in> set xs" "distinct xs" by simp_all
    then have "snapshot_of b (fold (\<lambda>a s. snd (run_adapter eng a (rs a) s)) (x # xs) s)
        = snapshot_of b (snd (run_adapter eng b (rs b) (snd (run_adapter eng x (rs x) s))))"
      by (simp add: Cons.IH)
    also have "\<dots> = snapshot_of b (snd (run_adapter eng b (rs b) s))"
      by (rule run_adapter_own) (simp add: run_adapter_frame False [symmetric] False)
    finally show ?thesis .
  qed
qed

lemma cycle_snapshots_agree:
  assumes "settle_order order"
  shows "snapshot_of b (snd (fetchLatestData eng order rs s))
           = snapshot_of b (snd (fetchLatestData_sequential eng rs s))"
proof -
  have mem: "b \<in> set order" using assms by (cases b) (simp_all add: settle_order_def)
  have d: "distinct order" using assms by (simp add: settle_order_def)
  have "snapshot_of b (snd (fetchLatestData eng order rs s))
          = snapshot_of b (snd (run_adapter eng b (rs b) s))"
    unfolding fetchLatestData_fold by (rule fold_snapshot [OF d mem])
  moreover have "snapshot_of b (snd (fetchLatestData_sequential eng rs s))
          = snapshot_of b (snd (run_adapter eng b (rs b) s))"
    unfolding fetchLatestData_sequential_fold by (rule fold_snapshot) (simp, cases b, simp_all)
  ultimately show ?thesis by simp
qed

lemma sample_order: "settle_order [FearGreed, PriceData, BtcMetrics, BlockInfo]"
  by (auto simp: settle_order_def)

text \<open>
  Claim C10. For the same four fetch outcomes, the sequential cycle of
  \<^verbatim>\<open>src/unnamed/part_000\<close> and the joined cycle of \<^verbatim>\<open>src/src/App.js\<close>, in whatever
  order its four requests settle, leave the block info, the block height, the price,
  the market metrics, the price series and the sentiment index with the same values.
\<close>

theorem cycle_variants_agree:
  assumes "settle_order order"
  shows "blockInfo (snd (fetchLatestData eng order rs s))
           = blockInfo (snd (fetchLatestData_sequential eng rs s))
       \<and> blockHeight (snd (fetchLatestData eng order rs s))
           = blockHeight (snd (fetchLatestData_sequential eng rs s))
       \<and> btcPrice (snd (fetchLatestData eng order rs s))
           = btcPrice (snd (fetchLatestData_sequential eng rs s))
       \<and> btcMetrics (snd (fetchLatestData eng order rs s))
           = btcMetrics (snd (fetchLatestData_sequential eng rs s))
       \<and> priceData (snd (fetchLatestData eng order rs s))
           = priceData (snd (fetchLatestData_sequential eng rs s))
       \<and> fearGreedIndex (snd (fetchLatestData eng order rs s))
           = fearGreedIndex (snd (fetchLatestData_sequential eng rs s))"
  using cycle_snapshots_agree [OF assms, of BlockInfo eng rs s]
        cycle_snapshots_agree [OF assms, of BtcMetrics eng rs s]
        cycle_snapshots_agree [OF assms, of PriceData eng rs s]
        cycle_snapshots_agree [OF assms, of FearGreed eng rs s]
  by simp

theorem cycle_variants_agree_witness:
  "settle_order [FearGreed, PriceData, BtcMetrics, BlockInfo]
   \<and> blockInfo (snd (fetchLatestData v8 [FearGreed, PriceData, BtcMetrics, BlockInfo]
                       block_and_price_down initial_state))
       = blockInfo (snd (fetchLatestData_sequential v8 block_and_price_down initial_state))
   \<and> btcPrice (snd (fetchLatestData v8 [FearGreed, PriceData, BtcMetrics, BlockInfo]
                      block_and_price_down initial_state))
       = btcPrice (snd (fetchLatestData_sequential v8 block_and_price_down initial_state))
   \<and> priceData (snd (fetchLatestData v8 [FearGreed, PriceData, BtcMetrics, BlockInfo]
                       block_and_price_down initial_state))
       = priceData (snd (fetchLatestData_sequential v8 block_and_price_down initial_state))
   \<and> fearGreedIndex (snd (fetchLatestData v8 [FearGreed, PriceData, BtcMetrics, BlockInfo]
                            block_and_price_down initial_state))
       = fearGreedIndex (snd (fetchLatestData_sequential v8 block_and_price_down initial_state))"
  using cycle_variants_agree [OF sample_order, of v8 block_and_price_down initial_state]
        sample_order
  by simp

section \<open>Evaluating the sample payloads\<close>

lemmas payload_defs = json_ok_def http_error_def block_payload_def market_payload_def
  market_payload_no_volume_def chart_payload_def sentiment_payload_def sentiment_payload_odd_def
  price_points_def

lemmas eval_defs = try_defs fetch_defs catch_setError_def setter_defs js_bind_def
  block_info_literal_def btc_metrics_literal_def fear_greed_literal_def prices_map_def
  hour_label_def getHours_def time_clip_def truncate_real_def slice_def v8_def Let_def

lemma healthy_succeeds: "adapter_failure v8 a (healthy a) = None"
  by (cases a) (simp_all add: adapter_failure_def eval_defs payload_defs)

lemma price_down_failure:
  "adapter_failure v8 a (price_down a)
     = (if a = PriceData then Some (JsError ''Error'' ''Failed to fetch price data'') else None)"
  by (cases a) (simp_all add: adapter_failure_def eval_defs payload_defs)

lemma block_and_price_down_failure:
  "adapter_failure v8 a (block_and_price_down a)
     = (if a = BlockInfo then Some (JsError ''TypeError'' ''Failed to fetch'')
        else if a = PriceData then Some (JsError ''Error'' ''Failed to fetch price data'')
        else None)"
  by (cases a) (simp_all add: adapter_failure_def eval_defs payload_defs)

section \<open>The error cell\<close>

text \<open>After the adapters have run in some order, the error cell holds the last failure.\<close>

lemma fold_error:
  "error (fold (\<lambda>a s. snd (run_adapter eng a (rs a) s)) order s)
     = (case last_failure eng order rs of None \<Rightarrow> error s | Some e \<Rightarrow> message e)"
proof (induction order rule: rev_induct)
  case Nil
  then show ?case by (simp add: last_failure_def failed_adapters_def)
next
  case (snoc x xs)
  show ?case
  proof (cases "adapter_failure eng x (rs x)")
    case None
    then have "last_failure eng (xs @ [x]) rs = last_failure eng xs rs"
      by (simp add: last_failure_def failed_adapters_def)
    with None snoc show ?thesis by (simp add: run_adapter_error)
  next
    case (Some e)
    then have "last_failure eng (xs @ [x]) rs = Some e"
      by (simp add: last_failure_def failed_adapters_def)
    with Some show ?thesis by (simp add: run_adapter_error)
  qed
qed

lemma last_failure_None:
  "last_failure eng order rs = None \<longleftrightarrow> (\<forall>a\<in>set order. adapter_failure eng a (rs a) = None)"
proof -
  have "last_failure eng order rs = None \<longleftrightarrow> failed_adapters eng order rs = []"
  proof (cases "failed_adapters eng order rs = []")
    case True
    then show ?thesis by (simp add: last_failure_def)
  next
    case False
    then have "last (failed_adapters eng order rs) \<in> set (failed_adapters eng order rs)"
      by (rule last_in_set)
    then have "adapter_failure eng (last (failed_adapters eng order rs))
                 (rs (last (failed_adapters eng order rs))) \<noteq> None"
      by (simp add: failed_adapters_def)
    with False show ?thesis by (simp add: last_failure_def Let_def)
  qed
  then show ?thesis by (auto simp: failed_adapters_def filter_empty_conv)
qed

section \<open>Containment of failures\<close>

text \<open>
  Claim C2. Whatever the four fetch outcomes are, a cycle ends fulfilled and yields a
  state: no adapter ends rejected, the join of \<^verbatim>\<open>src/src/App.js\<close> is fulfilled for
  every order of settlement, and so is the sequential cycle of
  \<^verbatim>\<open>src/unnamed/part_000\<close>. The state a cycle yields is the one obtained by running
  every adapter to its end, one step each (in settle order for the join, in program
  order for the sequential cycle), and what the adapters threw is recorded in it: its
  error cell holds the message of the last failure of the cycle, and is the one from
  before the cycle when no adapter failed. What a single adapter throws ends up as the
  error cell in the same way.
\<close>

theorem fetchLatestData_never_rejects:
  "fst (run_adapter eng a r s) = None
   \<and> error (snd (run_adapter eng a r s))
       = (case fst (adapter_try eng a r s) of None \<Rightarrow> error s | Some e \<Rightarrow> message e)
   \<and> fst (fetchLatestData eng order rs s) = None
   \<and> snd (fetchLatestData eng order rs s)
       = fold (\<lambda>a s. snd (run_adapter eng a (rs a) s)) order s
   \<and> error (snd (fetchLatestData eng order rs s))
       = (case last_failure eng order rs of None \<Rightarrow> error s | Some e \<Rightarrow> message e)
   \<and> fst (fetchLatestData_sequential eng rs s) = None
   \<and> snd (fetchLatestData_sequential eng rs s)
       = fold (\<lambda>a s. snd (run_adapter eng a (rs a) s))
           [BlockInfo, BtcMetrics, PriceData, FearGreed] s
   \<and> error (snd (fetchLatestData_sequential eng rs s))
       = (case last_failure eng [BlockInfo, BtcMetrics, PriceData, FearGreed] rs of
            None \<Rightarrow> error s | Some e \<Rightarrow> message e)"
proof -
  have join: "fst (fetchLatestData eng order rs s) = None"
    unfolding fetchLatestData_def
    by (rule promise_all_fulfilled) (auto simp: run_adapter_fulfilled)
  have seq: "fst (fetchLatestData_sequential eng rs s) = None"
    by (simp add: fetchLatestData_sequential_def catch_setError_fulfilled)
  have one: "error (snd (run_adapter eng a r s))
       = (case fst (adapter_try eng a r s) of None \<Rightarrow> error s | Some e \<Rightarrow> message e)"
    by (simp add: run_adapter_error adapter_try_failure)
  have join_error: "error (snd (fetchLatestData eng order rs s))
       = (case last_failure eng order rs of None \<Rightarrow> error s | Some e \<Rightarrow> message e)"
    unfolding fetchLatestData_fold by (rule fold_error)
  have seq_error: "error (snd (fetchLatestData_sequential eng rs s))
       = (case last_failure eng [BlockInfo, BtcMetrics, PriceData, FearGreed] rs of
            None \<Rightarrow> error s | Some e \<Rightarrow> message e)"
    unfolding fetchLatestData_sequential_fold by (rule fold_error)
  from run_adapter_fulfilled [of eng a r s] one
       join fetchLatestData_fold [of eng order rs s] join_error
       seq fetchLatestData_sequential_fold [of eng rs s] seq_error
  show ?thesis by blast
qed

text \<open>
  Claim C3, as the code has it. After a cycle in which one or more adapters failed, the
  error cell holds exactly the message of the failure that settled last in that cycle.
  After a cycle in which all four adapters succeeded, the error cell is what it was
  before the cycle: nothing ever clears it.
\<close>

theorem error_after_cycle:
  assumes "settle_order order"
  shows "((\<exists>a. adapter_failure eng a (rs a) \<noteq> None) \<longrightarrow>
            (\<exists>e. last_failure eng order rs = Some e
                \<and> error (snd (fetchLatestData eng order rs s)) = message e))
       \<and> ((\<forall>a. adapter_failure eng a (rs a) = None) \<longrightarrow>
            error (snd (fetchLatestData eng order rs s)) = error s)"
proof -
  have all: "set order = UNIV"
  proof -
    have "a \<in> set order" for a using assms by (cases a) (simp_all add: settle_order_def)
    then show ?thesis by auto
  qed
  have none: "last_failure eng order rs = None \<longleftrightarrow> (\<forall>a. adapter_failure eng a (rs a) = None)"
    by (simp add: last_failure_None all)
  show ?thesis
    unfolding fetchLatestData_fold fold_error using none
    by (cases "last_failure eng order rs") auto
qed

theorem error_after_cycle_witness:
  "settle_order [FearGreed, PriceData, BtcMetrics, BlockInfo]
   \<and> adapter_failure v8 PriceData (block_and_price_down PriceData) \<noteq> None
   \<and> adapter_failure v8 BlockInfo (block_and_price_down BlockInfo) \<noteq> None
   \<and> last_failure v8 [FearGreed, PriceData, BtcMetrics, BlockInfo] block_and_price_down
        = Some (JsError ''TypeError'' ''Failed to fetch'')
   \<and> error (snd (fetchLatestData v8 [FearGreed, PriceData, BtcMetrics, BlockInfo]
                   block_and_price_down initial_state))
        = ''Failed to fetch''"
proof -
  have lf: "last_failure v8 [FearGreed, PriceData, BtcMetrics, BlockInfo] block_and_price_down
        = Some (JsError ''TypeError'' ''Failed to fetch'')"
    by (simp add: last_failure_def failed_adapters_def block_and_price_down_failure
          del: block_and_price_down.simps)
  have ex: "\<exists>a. adapter_failure v8 a (block_and_price_down a) \<noteq> None"
    by (rule exI [of _ BlockInfo])
       (simp add: block_and_price_down_failure del: block_and_price_down.simps)
  from error_after_cycle [OF sample_order, of v8 block_and_price_down initial_state]
       ex lf sample_order
  show ?thesis by (simp add: block_and_price_down_failure del: block_and_price_down.simps)
qed

text \<open>
  Claim C3 as stated fails. In a first cycle the chart endpoint answers with an error
  status; in the second cycle all four adapters succeed, and the error cell still holds
  the first cycle's message.
\<close>

theorem stale_error_after_healthy_cycle:
  "adapter_failure v8 BlockInfo (healthy BlockInfo) = None
   \<and> adapter_failure v8 BtcMetrics (healthy BtcMetrics) = None
   \<and> adapter_failure v8 PriceData (healthy PriceData) = None
   \<and> adapter_failure v8 FearGreed (healthy FearGreed) = None
   \<and> error (snd (fetchLatestData v8 [BlockInfo, BtcMetrics, PriceData, FearGreed] price_down
                   initial_state))
        = ''Failed to fetch price data''
   \<and> error (snd (fetchLatestData v8 [BlockInfo, BtcMetrics, PriceData, FearGreed] healthy
                (snd (fetchLatestData v8 [BlockInfo, BtcMetrics, PriceData, FearGreed] price_down
                        initial_state))))
        = ''Failed to fetch price data''"
proof -
  have lf1: "last_failure v8 [BlockInfo, BtcMetrics, PriceData, FearGreed] price_down
               = Some (JsError ''Error'' ''Failed to fetch price data'')"
    by (simp add: last_failure_def failed_adapters_def price_down_failure del: price_down.simps)
  have lf2: "last_failure v8 [BlockInfo, BtcMetrics, PriceData, FearGreed] healthy = None"
    by (simp add: last_failure_def failed_adapters_def healthy_succeeds del: healthy.simps)
  show ?thesis
    unfolding fetchLatestData_fold fold_error lf1 lf2
    by (simp add: healthy_succeeds del: healthy.simps)
qed

section \<open>A market payload without total_volume\<close>

lemma get_path_snoc:
  "get_path eng v (ks @ [k]) = js_bind (get_path eng v ks) (\<lambda>w. get_prop eng w k)"
  by (induction ks arbitrary: v) (simp_all add: js_bind_def split: sum.splits)

text \<open>
  Whatever the engine and the rest of the payload: when the price and the market cap
  can be read and \<open>market_data.total_volume\<close> is missing, the adapter fails with the
  price overwritten and the metrics untouched.
\<close>

lemma fetchBtcMetrics_missing_volume:
  assumes "get_path eng data [''market_data'', ''current_price'', ''usd''] = Inr price"
    and "get_path eng data [''market_data'', ''market_cap'', ''usd''] = Inr cap"
    and "get_path eng data [''market_data'', ''total_volume''] = Inr Undefined"
  shows "btcPrice (snd (fetchBtcMetrics eng (json_ok data) s)) = price
       \<and> btcMetrics (snd (fetchBtcMetrics eng (json_ok data) s)) = btcMetrics s
       \<and> error (snd (fetchBtcMetrics eng (json_ok data) s))
            = nullishReadMessage eng Undefined ''usd''"
proof -
  have "get_path eng data ([''market_data'', ''total_volume''] @ [''usd''])
          = Inl (JsError ''TypeError'' (nullishReadMessage eng Undefined ''usd''))"
    unfolding get_path_snoc using assms(3) by (simp add: js_bind_def)
  then have vol: "get_path eng data [''market_data'', ''total_volume'', ''usd'']
          = Inl (JsError ''TypeError'' (nullishReadMessage eng Undefined ''usd''))"
    by simp
  have lit: "btc_metrics_literal eng data
          = Inl (JsError ''TypeError'' (nullishReadMessage eng Undefined ''usd''))"
    unfolding btc_metrics_literal_def by (simp only: assms(2) vol js_bind_def sum.case)
  show ?thesis
    by (simp add: fetchBtcMetrics_def fetchBtcMetrics_try_def json_ok_def catch_setError_def
          assms(1) lit setBtcPrice_def setError_def Let_def del: get_path.simps)
qed

text \<open>
  Claim C4, evaluated. On the first cycle, a market payload that lacks
  \<open>market_data.total_volume\<close> makes the adapter throw while it builds the metrics
  object: the error cell gets the TypeError's message and the metrics stay absent, but
  the price has been written already. On a later cycle the price of the last good
  payload (43000) is likewise replaced by the one of the incomplete payload (43500).
  With a price and no metrics, rendering the market section throws.
\<close>

theorem fetchBtcMetrics_writes_price_before_failing:
  "btcPrice (snd (fetchBtcMetrics v8 (json_ok market_payload_no_volume) initial_state)) = Num 43500
   \<and> btcMetrics (snd (fetchBtcMetrics v8 (json_ok market_payload_no_volume) initial_state)) = None
   \<and> error (snd (fetchBtcMetrics v8 (json_ok market_payload_no_volume) initial_state))
        = ''Cannot read properties of undefined (reading '' @ [CHR 0x27] @ ''usd'' @ [CHR 0x27] @ '')''
   \<and> btcPrice (snd (fetchLatestData_sequential v8 healthy initial_state)) = Num 43000
   \<and> btcPrice (snd (fetchBtcMetrics v8 (json_ok market_payload_no_volume)
                 (snd (fetchLatestData_sequential v8 healthy initial_state)))) = Num 43500
   \<and> render_market_section v8
         (snd (fetchBtcMetrics v8 (json_ok market_payload_no_volume) initial_state))
        = Inl (JsError ''TypeError''
                 (''Cannot read properties of null (reading '' @ [CHR 0x27] @ ''marketCap''
                    @ [CHR 0x27] @ '')''))"
  by (simp add: eval_defs payload_defs initial_state_def fetchLatestData_sequential_def
        await_then_def render_market_section_def)

section \<open>The price series\<close>

lemma slice_last: "0 < n \<Longrightarrow> slice (- int n) xs = drop (length xs - n) xs"
  by (auto simp: slice_def Let_def max_def nat_diff_distrib')

lemma slice_last_24: "slice (- 24) xs = drop (length xs - 24) xs"
  using slice_last [of 24 xs] by simp

lemma prices_map_labels:
  assumes "get_prop eng data ''prices'' = Inr (price_points series)"
  shows "prices_map eng data
           (\<lambda>pricePoint. js_bind (get_index eng pricePoint 0) (\<lambda>t. Inr (hour_label eng t)))
           = Inr (map (\<lambda>(t, p). hour_label eng (Num t)) series)"
proof -
  have "map_js (\<lambda>pricePoint. js_bind (get_index eng pricePoint 0) (\<lambda>t. Inr (hour_label eng t)))
          (map (\<lambda>(t, p). Arr [Num t, Num p]) series)
        = Inr (map (\<lambda>(t, p). hour_label eng (Num t)) series)"
    by (induction series) (auto simp: js_bind_def)
  with assms show ?thesis by (simp add: prices_map_def price_points_def js_bind_def)
qed

lemma prices_map_values:
  assumes "get_prop eng data ''prices'' = Inr (price_points series)"
  shows "prices_map eng data (\<lambda>pricePoint. get_index eng pricePoint 1)
           = Inr (map (\<lambda>(t, p). Num p) series)"
proof -
  have "map_js (\<lambda>pricePoint. get_index eng pricePoint 1) (map (\<lambda>(t, p). Arr [Num t, Num p]) series)
        = Inr (map (\<lambda>(t, p). Num p) series)"
    by (induction series) auto
  with assms show ?thesis by (simp add: prices_map_def price_points_def js_bind_def)
qed

lemma hour_label_valid:
  assumes "\<bar>t\<bar> \<le> 8640000000000000"
  shows "hour_label eng (Num t) = decimal (local_hour eng t) @ '':00''"
  using assms by (simp add: hour_label_def getHours_def time_clip_def local_hour_def)

lemma local_hour_less: "local_hour eng t < 24"
  by (simp add: local_hour_def nat_less_iff)

lemma sample_labels:
  "map (\<lambda>(t, p). hour_label v8 (Num t)) (drop 2 sample_series)
     = [''0:00'', ''1:00'', ''2:00'', ''3:00'', ''4:00'', ''5:00'', ''6:00'', ''7:00'', ''8:00'',
        ''9:00'', ''10:00'', ''11:00'', ''12:00'', ''13:00'', ''14:00'', ''15:00'', ''16:00'',
        ''17:00'', ''18:00'', ''19:00'', ''20:00'', ''21:00'', ''22:00'', ''23:00'']"
  by (simp add: sample_series_def hour_label_def getHours_def time_clip_def truncate_real_def
        v8_def decimal.simps digit_char_def)

text \<open>
  Claim C5. When the chart payload's \<open>prices\<close> is a series of (timestamp, price) pairs of
  length L, the adapter stores as labels and as values the trailing 24 entries of the
  series in their original order (all L entries when L < 24, nothing added): the label
  of an entry is \<open>hour_label\<close> of its timestamp, the value is its price. There are
  exactly 24 of each when L \<ge> 24 and exactly L otherwise. For a timestamp that is a
  valid time value the label is the local hour of day, a number below 24 in decimal,
  followed by ":00".
\<close>

theorem fetchPriceData_trailing_24:
  assumes "ok response" and "json response = Inr data"
    and "get_prop eng data ''prices'' = Inr (price_points series)"
  shows "priceData (snd (fetchPriceData eng (Resolved response) s))
           = Some \<lparr> chart_labels = map (\<lambda>(t, p). hour_label eng (Num t))
                                        (drop (length series - 24) series),
                    datasets = [\<lparr> series_label = ''Bitcoin Price (USD)'',
                                  series_data = map (\<lambda>(t, p). Num p)
                                                  (drop (length series - 24) series),
                                  borderColor = ''rgba(75, 192, 192, 1)'',
                                  backgroundColor = ''rgba(75, 192, 192, 0.2)'',
                                  fill = True \<rparr>] \<rparr>
       \<and> (24 \<le> length series \<longrightarrow> length (drop (length series - 24) series) = 24)
       \<and> (length series < 24 \<longrightarrow> drop (length series - 24) series = series)
       \<and> (\<forall>(t, p) \<in> set series. \<bar>t\<bar> \<le> 8640000000000000 \<longrightarrow>
             hour_label eng (Num t) = decimal (local_hour eng t) @ '':00''
             \<and> local_hour eng t < 24)"
proof -
  have "priceData (snd (fetchPriceData eng (Resolved response) s))
           = Some \<lparr> chart_labels = map (\<lambda>(t, p). hour_label eng (Num t))
                                        (drop (length series - 24) series),
                    datasets = [\<lparr> series_label = ''Bitcoin Price (USD)'',
                                  series_data = map (\<lambda>(t, p). Num p)
                                                  (drop (length series - 24) series),
                                  borderColor = ''rgba(75, 192, 192, 1)'',
                                  backgroundColor = ''rgba(75, 192, 192, 0.2)'',
                                  fill = True \<rparr>] \<rparr>"
    using assms
    by (simp add: fetchPriceData_def catch_setError_fields fetchPriceData_try_def
          prices_map_labels prices_map_values setPriceData_def slice_last_24 drop_map
          del: One_nat_def)
  then show ?thesis
    by (auto simp: hour_label_valid local_hour_less)
qed

theorem fetchPriceData_trailing_24_witness:
  "ok \<lparr> ok = True, json = Inr long_chart_payload \<rparr>
   \<and> json \<lparr> ok = True, json = Inr long_chart_payload \<rparr> = Inr long_chart_payload
   \<and> get_prop v8 long_chart_payload ''prices'' = Inr (price_points sample_series)
   \<and> length sample_series = 26
   \<and> map_option chart_labels
        (priceData (snd (fetchPriceData v8 (json_ok long_chart_payload) initial_state)))
       = Some [''0:00'', ''1:00'', ''2:00'', ''3:00'', ''4:00'', ''5:00'', ''6:00'', ''7:00'',
               ''8:00'', ''9:00'', ''10:00'', ''11:00'', ''12:00'', ''13:00'', ''14:00'',
               ''15:00'', ''16:00'', ''17:00'', ''18:00'', ''19:00'', ''20:00'', ''21:00'',
               ''22:00'', ''23:00'']
   \<and> (1700000000000, 42000) \<in> set sample_series
   \<and> \<bar>1700000000000 :: real\<bar> \<le> 8640000000000000
   \<and> hour_label v8 (Num 1700000000000) = ''22:00''
   \<and> get_prop v8 chart_payload ''prices''
        = Inr (price_points [(1700000000000, 42000), (1700003600000, 42500)])
   \<and> length [(1700000000000 :: real, 42000 :: real), (1700003600000, 42500)] < 24
   \<and> map_option chart_labels
        (priceData (snd (fetchPriceData v8 (json_ok chart_payload) initial_state)))
       = Some [''22:00'', ''23:00'']"
proof -
  have a: "ok \<lparr> ok = True, json = Inr long_chart_payload \<rparr>" by simp
  have b: "json \<lparr> ok = True, json = Inr long_chart_payload \<rparr> = Inr long_chart_payload" by simp
  have c: "get_prop v8 long_chart_payload ''prices'' = Inr (price_points sample_series)"
    by (simp add: long_chart_payload_def)
  have len: "length sample_series = 26" by (simp add: sample_series_def)
  have mem: "(1700000000000, 42000) \<in> set sample_series"
    by (simp add: sample_series_def)
  have h: "local_hour v8 1700000000000 = 22"
    by (simp add: local_hour_def truncate_real_def v8_def)
  have long: "map_option chart_labels
        (priceData (snd (fetchPriceData v8 (json_ok long_chart_payload) initial_state)))
       = Some [''0:00'', ''1:00'', ''2:00'', ''3:00'', ''4:00'', ''5:00'', ''6:00'', ''7:00'',
               ''8:00'', ''9:00'', ''10:00'', ''11:00'', ''12:00'', ''13:00'', ''14:00'',
               ''15:00'', ''16:00'', ''17:00'', ''18:00'', ''19:00'', ''20:00'', ''21:00'',
               ''22:00'', ''23:00'']"
    and first: "hour_label v8 (Num 1700000000000) = ''22:00''"
    using fetchPriceData_trailing_24 [OF a b c, of initial_state] len mem h sample_labels
    by (auto simp: json_ok_def decimal.simps digit_char_def)
  have a': "ok \<lparr> ok = True, json = Inr chart_payload \<rparr>" by simp
  have b': "json \<lparr> ok = True, json = Inr chart_payload \<rparr> = Inr chart_payload" by simp
  have c': "get_prop v8 chart_payload ''prices''
        = Inr (price_points [(1700000000000, 42000), (1700003600000, 42500)])"
    by (simp add: chart_payload_def)
  have short: "map_option chart_labels
        (priceData (snd (fetchPriceData v8 (json_ok chart_payload) initial_state)))
       = Some [''22:00'', ''23:00'']"
    using fetchPriceData_trailing_24 [OF a' b' c', of initial_state]
    by (simp add: json_ok_def hour_label_def getHours_def time_clip_def truncate_real_def
          v8_def decimal.simps digit_char_def)
  from a b c len mem long first c' short show ?thesis by simp
qed

section \<open>The sentiment snapshot\<close>

text \<open>
  Claim C7, as the code has it. After every successful run of the sentiment adapter the
  snapshot holds exactly the \<open>value\<close> and \<open>value_classification\<close> properties of the
  first element of the payload's \<open>data\<close>, as they were received: the adapter checks
  neither the range of the value nor the classification.
\<close>

theorem sentiment_snapshot_mirrors_payload:
  assumes "fst (fetchFearGreedIndex_try eng r s) = None"
  shows "\<exists>response data entries indexData v c.
           r = Resolved response \<and> ok response \<and> json response = Inr data
         \<and> get_prop eng data ''data'' = Inr entries \<and> get_index eng entries 0 = Inr indexData
         \<and> get_prop eng indexData ''value'' = Inr v
         \<and> get_prop eng indexData ''value_classification'' = Inr c
         \<and> fearGreedIndex (snd (fetchFearGreedIndex eng r s))
              = Some \<lparr> index_value = v, index_classification = c \<rparr>"
  using assms
  by (auto simp: fetchFearGreedIndex_def catch_setError_fields fetchFearGreedIndex_try_def
        fear_greed_literal_def js_bind_def setFearGreedIndex_def
        split: fetch_result.splits sum.splits if_splits)

theorem sentiment_snapshot_mirrors_payload_witness:
  "fst (fetchFearGreedIndex_try v8 (json_ok sentiment_payload) initial_state) = None
   \<and> fearGreedIndex (snd (fetchFearGreedIndex v8 (json_ok sentiment_payload) initial_state))
        = Some \<lparr> index_value = Num 72, index_classification = Str ''Greed'' \<rparr>"
proof -
  have ok: "fst (fetchFearGreedIndex_try v8 (json_ok sentiment_payload) initial_state) = None"
    by (simp add: eval_defs payload_defs)
  from sentiment_snapshot_mirrors_payload [OF ok] ok show ?thesis
    by (auto simp: payload_defs)
qed

text \<open>
  Claim C7 as stated fails. The adapter succeeds on a payload whose value is 150 and
  whose classification is none of the five, and stores both.
\<close>

theorem sentiment_snapshot_unvalidated:
  "fst (fetchFearGreedIndex_try v8 (json_ok sentiment_payload_odd) initial_state) = None
   \<and> fearGreedIndex (snd (fetchFearGreedIndex v8 (json_ok sentiment_payload_odd) initial_state))
        = Some \<lparr> index_value = Num 150, index_classification = Str ''Panic'' \<rparr>
   \<and> \<not> sentiment_value_in_range (Num 150)
   \<and> \<not> known_classification (Str ''Panic'')"
  by (simp add: eval_defs payload_defs initial_state_def sentiment_value_in_range_def
        known_classification_def)

end
